theory Spec2Isabelle
  imports Main "HOL-Library.Sublist"
begin

section \<open>Data model of the realtime layer\<close>

text \<open>
  Payload fields arrive as JSON. A field is modelled as \<open>string option\<close>: \<open>None\<close> is a
  field that is missing (\<open>undefined\<close>), \<open>Some s\<close> a string. The handlers test fields
  with JavaScript's \<open>!x\<close>, which is true for a missing field and for the empty string.
\<close>

definition truthy :: "string option \<Rightarrow> bool" where
  "truthy v = (case v of None \<Rightarrow> False | Some s \<Rightarrow> s \<noteq> [])"

text \<open>The payload of a client event: \<open>{groupId, content, messageId}\<close>.\<close>

record event_data =
  groupId :: "string option"
  content :: "string option"
  messageId :: "string option"

text \<open>\<open>socket.user\<close>, attached by the authentication middleware.\<close>

record identity =
  userId :: string
  email :: string

record socket =
  sock_id :: string
  sock_user :: identity

text \<open>Group documents (models/Group.js): only the fields the realtime layer reads.\<close>

datatype membership = Active | Pending | Banned

record member =
  user :: string
  status :: membership

record group =
  group_id :: string
  members :: "member list"

text \<open>
  What \<open>Group.findById(id)\<close> of the database driver can do: return a document, return
  \<open>null\<close>, or reject with an error of some \<open>name\<close> and \<open>message\<close> (the name is
  \<open>CastError\<close> when the id is not an ObjectId).
\<close>

datatype find_outcome = Doc group | NoDoc | Rejects string string

text \<open>The message document built by \<open>sendMessage\<close> (models/Message.js).\<close>

record message =
  msg_group :: string
  msg_sender :: string
  msg_content :: string
  msg_encryptedContent :: string
  msg_iv :: string
  msg_algorithm :: string
  msg_keyVersion :: nat
  msg_timestamp :: string

text \<open>Server to client events, with the fields of their payloads in source order.\<close>

datatype event =
    ConnectSuccess string string string string
  | UserActive string string string string
  | UserInactive string string string string
  | MessageNew bool message
  | MessageRead string string string string

text \<open>The object handed to the acknowledgement callback.\<close>

record active_user =
  au_userId :: string
  au_email :: string
  au_status :: string

datatype ack_data = MessageData message | UsersData "active_user list"

record ack =
  success :: bool
  message :: "string option"
  error :: "string option"
  data :: "ack_data option"

text \<open>
  The error classes of utils/errors.js. \<open>AppError\<close> stores the code it is given in the
  property \<open>errorCode\<close>; no constructor sets a property \<open>code\<close>, so reading
  \<open>error.code\<close> yields \<open>undefined\<close> (\<open>err_code = None\<close>). \<open>OtherError\<close> stands for
  every error that is not an \<open>AppError\<close> (a \<open>TypeError\<close>, a driver error, a plain
  \<open>Error\<close>); such an error has no \<open>statusCode\<close> and no \<open>errorCode\<close>.
\<close>

datatype error_class =
    NotFoundErrorC | ValidationErrorC | AuthorizationErrorC | AuthenticationErrorC
  | InternalErrorC | OtherError

record app_error =
  err_class :: error_class
  err_name :: string
  err_message :: string
  err_statusCode :: "nat option"
  err_errorCode :: "string option"
  err_code :: "string option"

definition AppError :: "error_class \<Rightarrow> string \<Rightarrow> nat \<Rightarrow> string \<Rightarrow> app_error" where
  "AppError c m sc ec =
     \<lparr>err_class = c, err_name = ''Error'', err_message = m, err_statusCode = Some sc,
      err_errorCode = Some ec, err_code = None\<rparr>"

definition ValidationError :: "string \<Rightarrow> app_error" where
  "ValidationError m = AppError ValidationErrorC m 400 ''VALIDATION_ERROR''"

definition AuthenticationError :: "string \<Rightarrow> string \<Rightarrow> app_error" where
  "AuthenticationError m ec = AppError AuthenticationErrorC m 401 ec"

definition AuthorizationError :: "string \<Rightarrow> string \<Rightarrow> app_error" where
  "AuthorizationError m ec = AppError AuthorizationErrorC m 403 ec"

definition NotFoundError :: "string \<Rightarrow> string \<Rightarrow> app_error" where
  "NotFoundError m ec = AppError NotFoundErrorC m 404 ec"

definition InternalError :: "string \<Rightarrow> app_error" where
  "InternalError m = AppError InternalErrorC m 500 ''INTERNAL_SERVER_ERROR''"

text \<open>An error that is not an \<open>AppError\<close>, with its \<open>name\<close> and \<open>message\<close>.\<close>

definition js_error :: "string \<Rightarrow> string \<Rightarrow> app_error" where
  "js_error n m =
     \<lparr>err_class = OtherError, err_name = n, err_message = m, err_statusCode = None,
      err_errorCode = None, err_code = None\<rparr>"

text \<open>
  The state of the process and of its collaborators:
  \<^item> \<open>sockets\<close>: the connected sockets of the namespace, each with its \<open>socket.user\<close>;
  \<^item> \<open>rooms\<close>: the adapter's room table, room name to the Set of socket ids in it
    (a Set is a list in insertion order);
  \<^item> \<open>globalActiveUsers\<close>: the module-level \<open>Map\<close> of presenceHandlers.js,
    userId to the Set of groupIds;
  \<^item> \<open>findById\<close>: the Group collection as \<open>Group.findById\<close> answers;
  \<^item> \<open>cipher\<close>: the AES primitive with the configured key, giving the encrypted
    content and the iv, \<open>None\<close> when the key is missing or the cipher throws;
  \<^item> \<open>save_error\<close>: the name and message of the error the driver rejects a write
    with, \<open>None\<close> when it accepts the write;
  \<^item> \<open>jwt_verify\<close>: \<open>jwt.verify\<close> with the configured secret, giving the claims
    \<open>userId\<close> and \<open>email\<close> of a valid token, \<open>None\<close> when it throws;
  \<^item> \<open>messages\<close>: the Message collection;
  \<^item> \<open>outbox\<close>: every emit so far, as the list of socket ids it was delivered to
    and the event.
\<close>

record world =
  sockets :: "string \<rightharpoonup> identity"
  rooms :: "string \<Rightarrow> string list"
  globalActiveUsers :: "string \<rightharpoonup> string list"
  findById :: "string \<Rightarrow> find_outcome"
  cipher :: "string \<Rightarrow> (string \<times> string) option"
  save_error :: "(string \<times> string) option"
  jwt_verify :: "string \<Rightarrow> identity option"
  messages :: "message list"
  outbox :: "(string list \<times> event) list"

section \<open>JavaScript Sets and the socket.io primitives\<close>

definition set_add :: "'a \<Rightarrow> 'a list \<Rightarrow> 'a list" where
  "set_add x xs = (if x \<in> set xs then xs else xs @ [x])"

definition set_delete :: "'a \<Rightarrow> 'a list \<Rightarrow> 'a list" where
  "set_delete x xs = removeAll x xs"

text \<open>
  The adapter visits the ids of a room once each and skips an id that is no longer a
  connected socket of the namespace.
\<close>

definition room_sockets :: "world \<Rightarrow> string \<Rightarrow> string list" where
  "room_sockets w r = filter (\<lambda>i. sockets w i \<noteq> None) (remdups (rooms w r))"

text \<open>\<open>socket.join(room)\<close> and \<open>socket.leave(room)\<close>.\<close>

definition socket_join :: "string \<Rightarrow> string \<Rightarrow> world \<Rightarrow> world" where
  "socket_join sid r w = w\<lparr>rooms := (rooms w)(r := set_add sid (rooms w r))\<rparr>"

definition socket_leave :: "string \<Rightarrow> string \<Rightarrow> world \<Rightarrow> world" where
  "socket_leave sid r w = w\<lparr>rooms := (rooms w)(r := set_delete sid (rooms w r))\<rparr>"

text \<open>
  \<open>socket.to(room).emit(ev)\<close> reaches the sockets of the room except the emitting one;
  \<open>io.in(room).emit(ev)\<close> reaches all of them; \<open>socket.emit(ev)\<close> reaches the socket.
  (The library excludes the emitter through the private room every socket has under its
  own id; that room is left out of \<open>rooms\<close>, and the exclusion is by id.)
\<close>

definition socket_to_emit :: "string \<Rightarrow> string \<Rightarrow> event \<Rightarrow> world \<Rightarrow> world" where
  "socket_to_emit sid r ev w =
     w\<lparr>outbox := outbox w @ [(filter (\<lambda>i. i \<noteq> sid) (room_sockets w r), ev)]\<rparr>"

definition io_in_emit :: "string \<Rightarrow> event \<Rightarrow> world \<Rightarrow> world" where
  "io_in_emit r ev w = w\<lparr>outbox := outbox w @ [(room_sockets w r, ev)]\<rparr>"

definition socket_emit :: "string \<Rightarrow> event \<Rightarrow> world \<Rightarrow> world" where
  "socket_emit sid ev w = w\<lparr>outbox := outbox w @ [([sid], ev)]\<rparr>"

text \<open>The room of a group: the template string \<open>group:${groupId}\<close>.\<close>

definition group_room :: "string \<Rightarrow> string" where
  "group_room gid = ''group:'' @ gid"

section \<open>Group service\<close>

text \<open>
  \<open>getGroupById\<close> of the group service. The second argument it gives to
  \<open>ValidationError\<close> is that class's list of errors, and the further arguments the
  services give to \<open>InternalError\<close> are dropped by its constructor; the realtime layer
  reads neither.
\<close>

definition getGroupById :: "world \<Rightarrow> string \<Rightarrow> app_error + group" where
  "getGroupById w gid =
     (case findById w gid of
        Doc g \<Rightarrow> Inr g
      | NoDoc \<Rightarrow> Inl (NotFoundError ''Group not found'' ''GROUP_NOT_FOUND'')
      | Rejects n m \<Rightarrow>
          (if n = ''CastError'' then Inl (ValidationError ''Invalid group ID format'')
           else Inl (InternalError ''Group service error'')))"

text \<open>
  The membership test the handlers and \<open>group.isMember\<close> share:
  \<open>members.some(m => m.user.toString() === userId && m.status === 'active')\<close>.
\<close>

definition isMember :: "group \<Rightarrow> string \<Rightarrow> bool" where
  "isMember g uid = list_ex (\<lambda>m. user m = uid \<and> status m = Active) (members g)"

section \<open>Presence handlers\<close>

definition ack_fail :: "string \<Rightarrow> string option \<Rightarrow> ack" where
  "ack_fail m e = \<lparr>success = False, message = Some m, error = e, data = None\<rparr>"

definition ack_ok :: "string \<Rightarrow> ack" where
  "ack_ok m = \<lparr>success = True, message = Some m, error = None, data = None\<rparr>"

text \<open>The Set of a user in \<open>globalActiveUsers\<close> after \<open>add(groupId)\<close>.\<close>

definition track_join :: "string \<Rightarrow> string \<Rightarrow> world \<Rightarrow> world" where
  "track_join uid gid w =
     (let m = (if globalActiveUsers w uid = None
               then (globalActiveUsers w)(uid \<mapsto> []) else globalActiveUsers w)
      in w\<lparr>globalActiveUsers := m(uid \<mapsto> set_add gid (the (m uid)))\<rparr>)"

definition track_leave :: "string \<Rightarrow> string \<Rightarrow> world \<Rightarrow> world" where
  "track_leave uid gid w =
     (case globalActiveUsers w uid of
        None \<Rightarrow> w
      | Some gs \<Rightarrow>
          (if length (set_delete gid gs) = 0
           then w\<lparr>globalActiveUsers := (globalActiveUsers w)(uid := None)\<rparr>
           else w\<lparr>globalActiveUsers := (globalActiveUsers w)(uid \<mapsto> set_delete gid gs)\<rparr>))"

text \<open>
  The inner \<open>try\<close> block of \<open>handleJoinGroup\<close>: the lookup, the membership test, the
  join, the tracking, the broadcast and the acknowledgement.
\<close>

definition joinGroup_try :: "socket \<Rightarrow> string \<Rightarrow> world \<Rightarrow> app_error + (ack \<times> world)" where
  "joinGroup_try s gid w =
     (case getGroupById w gid of
        Inl e \<Rightarrow> Inl e
      | Inr g \<Rightarrow>
          (if \<not> isMember g (userId (sock_user s))
           then Inl (AuthorizationError ''You are not a member of this group''
                       ''NOT_GROUP_MEMBER'')
           else
             let w1 = socket_join (sock_id s) (group_room gid) w;
                 w2 = track_join (userId (sock_user s)) gid w1;
                 w3 = socket_to_emit (sock_id s) (group_room gid)
                        (UserActive (userId (sock_user s)) (email (sock_user s)) gid
                           ''online'') w2
             in Inr (ack_ok ''Successfully joined group room'', w3)))"

text \<open>
  \<open>handleJoinGroup\<close>. A payload that is \<open>undefined\<close> or \<open>null\<close> makes the
  destructuring throw, which the outer \<open>catch\<close> answers.
\<close>

definition handleJoinGroup :: "socket \<Rightarrow> event_data option \<Rightarrow> world \<Rightarrow> ack \<times> world" where
  "handleJoinGroup s d w =
     (case d of
        None \<Rightarrow> (ack_fail ''Failed to join group room'' (Some ''INTERNAL_ERROR''), w)
      | Some dat \<Rightarrow>
          (if \<not> truthy (groupId dat)
           then (ack_fail ''Group ID is required'' (Some ''INVALID_INPUT''), w)
           else
             (case joinGroup_try s (the (groupId dat)) w of
                Inr r \<Rightarrow> r
              | Inl e \<Rightarrow>
                  (if err_class e = NotFoundErrorC
                   then (ack_fail ''Group not found'' (Some ''GROUP_NOT_FOUND''), w)
                   else if err_class e = AuthorizationErrorC
                   then (ack_fail (err_message e) (err_code e), w)
                   else (ack_fail ''Failed to join group room'' (Some ''INTERNAL_ERROR''),
                         w)))))"

text \<open>\<open>handleLeaveGroup\<close>: no lookup, no test that the socket is in the room.\<close>

definition handleLeaveGroup :: "socket \<Rightarrow> event_data option \<Rightarrow> world \<Rightarrow> ack \<times> world" where
  "handleLeaveGroup s d w =
     (case d of
        None \<Rightarrow> (ack_fail ''Failed to leave group room'' (Some ''INTERNAL_ERROR''), w)
      | Some dat \<Rightarrow>
          (if \<not> truthy (groupId dat)
           then (ack_fail ''Group ID is required'' (Some ''INVALID_INPUT''), w)
           else
             let gid = the (groupId dat);
                 w1 = socket_leave (sock_id s) (group_room gid) w;
                 w2 = track_leave (userId (sock_user s)) gid w1;
                 w3 = socket_to_emit (sock_id s) (group_room gid)
                        (UserInactive (userId (sock_user s)) (email (sock_user s)) gid
                           ''offline'') w2
             in (ack_ok ''Successfully left group room'', w3)))"

text \<open>\<open>io.in(room).fetchSockets()\<close>: the connected sockets of the room.\<close>

definition fetchSockets :: "world \<Rightarrow> string \<Rightarrow> socket list" where
  "fetchSockets w r =
     map (\<lambda>i. \<lparr>sock_id = i, sock_user = the (sockets w i)\<rparr>) (room_sockets w r)"

definition getActiveUsers_try :: "socket \<Rightarrow> string \<Rightarrow> world \<Rightarrow> app_error + (ack \<times> world)" where
  "getActiveUsers_try s gid w =
     (case getGroupById w gid of
        Inl e \<Rightarrow> Inl e
      | Inr g \<Rightarrow>
          (if \<not> isMember g (userId (sock_user s))
           then Inl (AuthorizationError ''You are not a member of this group''
                       ''NOT_GROUP_MEMBER'')
           else
             let socks = fetchSockets w (group_room gid);
                 activeUsers =
                   map (\<lambda>x. \<lparr>au_userId = userId (sock_user x),
                              au_email = email (sock_user x), au_status = ''online''\<rparr>) socks
             in Inr (\<lparr>success = True, message = None, error = None,
                      data = Some (UsersData activeUsers)\<rparr>, w)))"

definition handleGetActiveUsers :: "socket \<Rightarrow> event_data option \<Rightarrow> world \<Rightarrow> ack \<times> world" where
  "handleGetActiveUsers s d w =
     (case d of
        None \<Rightarrow> (ack_fail ''Failed to get active users'' (Some ''INTERNAL_ERROR''), w)
      | Some dat \<Rightarrow>
          (if \<not> truthy (groupId dat)
           then (ack_fail ''Group ID is required'' (Some ''INVALID_INPUT''), w)
           else
             (case getActiveUsers_try s (the (groupId dat)) w of
                Inr r \<Rightarrow> r
              | Inl e \<Rightarrow>
                  (if err_class e = NotFoundErrorC
                   then (ack_fail ''Group not found'' (Some ''GROUP_NOT_FOUND''), w)
                   else if err_class e = AuthorizationErrorC
                   then (ack_fail (err_message e) (err_code e), w)
                   else (ack_fail ''Failed to get active users'' (Some ''INTERNAL_ERROR''),
                         w)))))"

text \<open>
  \<open>handleDisconnect\<close>: one \<open>user:inactive\<close> emit per group of the user's Set, in the
  order of the Set, then the user's entry is deleted.
\<close>

definition notify_offline :: "socket \<Rightarrow> string \<Rightarrow> world \<Rightarrow> world" where
  "notify_offline s gid w =
     socket_to_emit (sock_id s) (group_room gid)
       (UserInactive (userId (sock_user s)) (email (sock_user s)) gid ''offline'') w"

definition handleDisconnect :: "socket \<Rightarrow> world \<Rightarrow> world" where
  "handleDisconnect s w =
     (let uid = userId (sock_user s) in
      case globalActiveUsers w uid of
        None \<Rightarrow> w
      | Some groups \<Rightarrow>
          (if uid = [] then w
           else
             let w1 = fold (notify_offline s) groups w
             in w1\<lparr>globalActiveUsers := (globalActiveUsers w1)(uid := None)\<rparr>))"

text \<open>
  A socket that closes is cleaned up first (it leaves all its rooms and is removed from
  the namespace) and only then are its \<open>disconnect\<close> listeners run; the listener
  registered by \<open>initializeSocketServer\<close> calls \<open>handleDisconnect\<close>.
\<close>

definition cleanup :: "string \<Rightarrow> world \<Rightarrow> world" where
  "cleanup sid w =
     w\<lparr>rooms := (\<lambda>r. set_delete sid (rooms w r)), sockets := (sockets w)(sid := None)\<rparr>"

definition disconnect :: "socket \<Rightarrow> world \<Rightarrow> world" where
  "disconnect s w = handleDisconnect s (cleanup (sock_id s) w)"

section \<open>Message service and message handlers\<close>

text \<open>
  \<open>String.prototype.trim\<close>. A \<open>string\<close> is a list of 8-bit characters, read as the
  code points up to U+00FF; the white space and line terminators \<open>trim\<close> strips among
  them are the space, TAB, LF, VT, FF, CR and the no-break space U+00A0. The ones beyond
  U+00FF (U+FEFF, U+2028 and the like) have no character here.
\<close>

definition is_space :: "char \<Rightarrow> bool" where
  "is_space c =
     (c \<in> set [CHR '' '', CHR 0x09, CHR 0x0A, CHR 0x0B, CHR 0x0C, CHR 0x0D, CHR 0xA0])"

definition trim :: "string \<Rightarrow> string" where
  "trim s = rev (dropWhile is_space (rev (dropWhile is_space s)))"

text \<open>
  \<open>encryptMessage\<close> of utils/encryption.js: every failure inside is rethrown as the
  plain error \<open>Failed to encrypt message content\<close>.
\<close>

definition encryptMessage :: "world \<Rightarrow> string \<Rightarrow> app_error + (string \<times> string)" where
  "encryptMessage w plaintext =
     (if plaintext = [] \<or> length plaintext > 10000
      then Inl (js_error ''Error'' ''Failed to encrypt message content'')
      else
        (case cipher w plaintext of
           None \<Rightarrow> Inl (js_error ''Error'' ''Failed to encrypt message content'')
         | Some r \<Rightarrow> Inr r))"

text \<open>
  \<open>message.save()\<close>: the schema of models/Message.js requires the content, at most
  2000 characters of it, the encrypted content and the iv; then the driver writes. The
  message of the driver's validation error continues with the failing paths; only its
  fixed beginning is kept here, and no handler sends that text to a client.
\<close>

definition save :: "message \<Rightarrow> world \<Rightarrow> app_error + (message \<times> world)" where
  "save m w =
     (if msg_content m = [] \<or> length (msg_content m) > 2000
         \<or> msg_encryptedContent m = [] \<or> msg_iv m = []
      then Inl (js_error ''ValidationError'' ''Message validation failed'')
      else
        (case save_error w of
           Some (n, msg) \<Rightarrow> Inl (js_error n msg)
         | None \<Rightarrow> Inr (m, w\<lparr>messages := messages w @ [m]\<rparr>)))"

text \<open>The \<open>try\<close> block of \<open>sendMessage\<close> (message service); \<open>now\<close> is the clock.\<close>

definition sendMessage_try ::
  "string \<Rightarrow> string \<Rightarrow> string \<Rightarrow> string \<Rightarrow> world \<Rightarrow> app_error + (message \<times> world)" where
  "sendMessage_try now uid gid c w =
     (case findById w gid of
        Rejects n m \<Rightarrow> Inl (js_error n m)
      | NoDoc \<Rightarrow> Inl (NotFoundError ''Group not found'' ''GROUP_NOT_FOUND'')
      | Doc g \<Rightarrow>
          (if \<not> isMember g uid then
             Inl (AuthorizationError ''Only group members can send messages to the group''
                    ''NOT_GROUP_MEMBER'')
           else if c = [] \<or> length (trim c) = 0 then
             Inl (ValidationError ''Message content cannot be empty'')
           else
             (case encryptMessage w c of
                Inl e \<Rightarrow> Inl e
              | Inr (enc, iv) \<Rightarrow>
                  (case save \<lparr>msg_group = gid, msg_sender = uid, msg_content = c,
                              msg_encryptedContent = enc, msg_iv = iv,
                              msg_algorithm = ''aes-128-cbc'', msg_keyVersion = 1,
                              msg_timestamp = now\<rparr> w of
                     Inl e \<Rightarrow> Inl e
                   | Inr (saved, w') \<Rightarrow> Inr (saved\<lparr>msg_content := c\<rparr>, w')))))"

text \<open>\<open>sendMessage\<close> with its \<open>catch\<close>: the three classes pass, the rest is wrapped.\<close>

definition sendMessage ::
  "string \<Rightarrow> string \<Rightarrow> string \<Rightarrow> string \<Rightarrow> world \<Rightarrow> app_error + (message \<times> world)" where
  "sendMessage now uid gid c w =
     (case sendMessage_try now uid gid c w of
        Inr r \<Rightarrow> Inr r
      | Inl e \<Rightarrow>
          (if err_class e = NotFoundErrorC \<or> err_class e = AuthorizationErrorC
              \<or> err_class e = ValidationErrorC
           then Inl e
           else if err_name e = ''MongoError'' \<or> err_name e = ''MongooseError''
           then Inl (InternalError (''Database error: '' @ err_message e))
           else if err_name e = ''EncryptionError''
           then Inl (InternalError (''Encryption error: '' @ err_message e))
           else Inl (InternalError (''Message service error: '' @ err_message e))))"

text \<open>
  \<open>handleError\<close> of the message handlers. The \<open>details\<close> it adds for a validation error
  read a property no error has.
\<close>

definition handleError :: "app_error \<Rightarrow> string \<Rightarrow> ack" where
  "handleError e defaultMessage =
     (if err_class e = NotFoundErrorC then ack_fail (err_message e) (err_code e)
      else if err_class e = ValidationErrorC then ack_fail (err_message e) (err_code e)
      else if err_class e = AuthorizationErrorC then ack_fail (err_message e) (err_code e)
      else ack_fail (if defaultMessage = [] then ''An error occurred'' else defaultMessage)
             (Some ''INTERNAL_ERROR''))"

text \<open>The inner \<open>try\<close> block of \<open>handleSendMessage\<close>.\<close>

definition handleSendMessage_try ::
  "string \<Rightarrow> socket \<Rightarrow> string \<Rightarrow> string \<Rightarrow> world \<Rightarrow> app_error + (ack \<times> world)" where
  "handleSendMessage_try now s gid c w =
     (case getGroupById w gid of
        Inl e \<Rightarrow> Inl e
      | Inr g \<Rightarrow>
          (if \<not> isMember g (userId (sock_user s))
           then Inr (ack_fail ''You are not a member of this group''
                       (Some ''NOT_GROUP_MEMBER''), w)
           else
             (case sendMessage now (userId (sock_user s)) gid c w of
                Inl e \<Rightarrow> Inl e
              | Inr (m, w1) \<Rightarrow>
                  let w2 = socket_to_emit (sock_id s) (group_room gid) (MessageNew True m) w1
                  in Inr (\<lparr>success = True, message = Some ''Message sent successfully'',
                           error = None, data = Some (MessageData m)\<rparr>, w2))))"

definition handleSendMessage ::
  "string \<Rightarrow> socket \<Rightarrow> event_data option \<Rightarrow> world \<Rightarrow> ack \<times> world" where
  "handleSendMessage now s d w =
     (case d of
        None \<Rightarrow>
          (handleError (js_error ''TypeError'' ''Cannot destructure property'')
             ''Error sending message'', w)
      | Some dat \<Rightarrow>
          (if \<not> truthy (groupId dat) \<or> \<not> truthy (content dat)
           then (ack_fail ''Group ID and message content are required''
                   (Some ''INVALID_INPUT''), w)
           else
             (case handleSendMessage_try now s (the (groupId dat)) (the (content dat)) w of
                Inr r \<Rightarrow> r
              | Inl e \<Rightarrow>
                  (if err_class e = NotFoundErrorC
                   then (ack_fail ''Group not found'' (Some ''GROUP_NOT_FOUND''), w)
                   else (handleError e ''Error sending message'', w)))))"

text \<open>\<open>handleMessageRead\<close>: no lookup of the group and no membership test.\<close>

definition handleMessageRead ::
  "string \<Rightarrow> socket \<Rightarrow> event_data option \<Rightarrow> world \<Rightarrow> ack \<times> world" where
  "handleMessageRead now s d w =
     (case d of
        None \<Rightarrow>
          (handleError (js_error ''TypeError'' ''Cannot destructure property'')
             ''Error processing read receipt'', w)
      | Some dat \<Rightarrow>
          (if \<not> truthy (messageId dat) \<or> \<not> truthy (groupId dat)
           then (ack_fail ''Message ID and group ID are required''
                   (Some ''INVALID_INPUT''), w)
           else
             let w1 = io_in_emit (group_room (the (groupId dat)))
                        (MessageRead (the (messageId dat)) (userId (sock_user s))
                           (email (sock_user s)) now) w
             in (\<lparr>success = True, message = None, error = None, data = None\<rparr>, w1)))"

section \<open>Connection gateway\<close>

text \<open>\<open>handshake.auth.token\<close> and \<open>handshake.headers.authorization\<close>.\<close>

record handshake =
  auth_token :: "string option"
  authorization :: "string option"

text \<open>\<open>s.replace(pat, rep)\<close> with a string pattern: the first occurrence only.\<close>

fun replace_first :: "string \<Rightarrow> string \<Rightarrow> string \<Rightarrow> string" where
  "replace_first pat rep [] = (if pat = [] then rep else [])"
| "replace_first pat rep (c # cs) =
     (if prefix pat (c # cs) then rep @ drop (length pat) (c # cs)
      else c # replace_first pat rep cs)"

text \<open>\<open>verifyToken\<close> of utils/jwt.js.\<close>

definition verifyToken :: "world \<Rightarrow> string \<Rightarrow> identity option" where
  "verifyToken w token = (if token = [] then None else jwt_verify w token)"

text \<open>
  The middleware of \<open>createAuthMiddleware\<close>: \<open>Inl\<close> is the error given to \<open>next\<close>,
  \<open>Inr\<close> the identity attached to the socket before \<open>next()\<close>. The token is
  \<open>auth.token || headers.authorization?.replace('Bearer ', '')\<close>.
\<close>

definition handshake_token :: "handshake \<Rightarrow> string option" where
  "handshake_token h =
     (if truthy (auth_token h) then auth_token h
      else map_option (replace_first ''Bearer '' []) (authorization h))"

definition authMiddleware :: "world \<Rightarrow> handshake \<Rightarrow> app_error + identity" where
  "authMiddleware w h =
     (let token = handshake_token h
      in if \<not> truthy token
         then Inl (AuthenticationError ''Authentication error'' ''NO_AUTH_TOKEN'')
         else
           (case verifyToken w (the token) of
              None \<Rightarrow> Inl (AuthenticationError ''Invalid or expired token'' ''INVALID_TOKEN'')
            | Some decoded \<Rightarrow> Inr \<lparr>userId = userId decoded, email = email decoded\<rparr>))"

text \<open>
  A connection attempt with socket id \<open>sid\<close> at time \<open>now\<close>: the middleware installed
  by \<open>io.use\<close> runs first; the \<open>connection\<close> listener of \<open>initializeSocketServer\<close>
  runs only when the middleware called \<open>next()\<close> without an error.
\<close>

definition connect ::
  "string \<Rightarrow> string \<Rightarrow> handshake \<Rightarrow> world \<Rightarrow> (app_error + socket) \<times> world" where
  "connect sid now h w =
     (case authMiddleware w h of
        Inl e \<Rightarrow> (Inl e, w)
      | Inr u \<Rightarrow>
          let w1 = w\<lparr>sockets := (sockets w)(sid \<mapsto> u)\<rparr>;
              w2 = socket_emit sid (ConnectSuccess (userId u) (email u) sid now) w1
          in (Inr \<lparr>sock_id = sid, sock_user = u\<rparr>, w2))"

section \<open>A concrete deployment\<close>

text \<open>
  Four users and one group \<open>g1\<close> in which alice, bob and dave are active and carol is
  pending. Bob is connected twice (\<open>s2\<close> and \<open>s4\<close>) and is present in three rooms.
\<close>

definition alice :: identity where
  "alice = \<lparr>userId = ''u1'', email = ''alice@example.com''\<rparr>"

definition bob :: identity where
  "bob = \<lparr>userId = ''u2'', email = ''bob@example.com''\<rparr>"

definition carol :: identity where
  "carol = \<lparr>userId = ''u3'', email = ''carol@example.com''\<rparr>"

definition dave :: identity where
  "dave = \<lparr>userId = ''u4'', email = ''dave@example.com''\<rparr>"

definition sock_alice :: socket where
  "sock_alice = \<lparr>sock_id = ''s1'', sock_user = alice\<rparr>"

definition sock_bob :: socket where
  "sock_bob = \<lparr>sock_id = ''s2'', sock_user = bob\<rparr>"

definition sock_carol :: socket where
  "sock_carol = \<lparr>sock_id = ''s3'', sock_user = carol\<rparr>"

definition sock_dave :: socket where
  "sock_dave = \<lparr>sock_id = ''s5'', sock_user = dave\<rparr>"

definition team :: group where
  "team = \<lparr>group_id = ''g1'',
            members = [\<lparr>user = ''u1'', status = Active\<rparr>, \<lparr>user = ''u2'', status = Active\<rparr>,
                       \<lparr>user = ''u3'', status = Pending\<rparr>, \<lparr>user = ''u4'', status = Active\<rparr>]\<rparr>"

definition lobby :: world where
  "lobby =
     \<lparr>sockets = [''s1'' \<mapsto> alice, ''s2'' \<mapsto> bob, ''s3'' \<mapsto> carol, ''s4'' \<mapsto> bob,
                 ''s5'' \<mapsto> dave],
      rooms = (\<lambda>r. if r = ''group:g1'' then [''s2'', ''s4'', ''s5'']
                    else if r = ''group:g2'' then [''s2'', ''s1'']
                    else if r = ''group:g3'' then [''s2''] else []),
      globalActiveUsers = [''u1'' \<mapsto> [''g2''], ''u2'' \<mapsto> [''g1'', ''g2'', ''g3''],
                           ''u4'' \<mapsto> [''g1'']],
      findById = (\<lambda>i. if i = ''g1'' then Doc team else NoDoc),
      cipher = (\<lambda>p. Some (rev p, ''00'')),
      save_error = None,
      jwt_verify = (\<lambda>t. if t = ''token-alice'' then Some alice else None),
      messages = [],
      outbox = []\<rparr>"

definition on_g1 :: event_data where
  "on_g1 = \<lparr>groupId = Some ''g1'', content = Some ''hi'', messageId = Some ''m1''\<rparr>"

definition no_content :: event_data where
  "no_content = \<lparr>groupId = Some ''g1'', content = Some [], messageId = None\<rparr>"

definition on_nowhere :: event_data where
  "on_nowhere = \<lparr>groupId = Some ''g9'', content = None, messageId = Some ''m1''\<rparr>"

definition no_credential :: handshake where
  "no_credential = \<lparr>auth_token = None, authorization = None\<rparr>"

definition bad_credential :: handshake where
  "bad_credential = \<lparr>auth_token = Some ''forged'', authorization = None\<rparr>"

definition empty_bearer :: handshake where
  "empty_bearer = \<lparr>auth_token = None, authorization = Some ''Bearer ''\<rparr>"

definition header_credential :: handshake where
  "header_credential = \<lparr>auth_token = None, authorization = Some ''Bearer token-alice''\<rparr>"

lemmas demo_defs =
  alice_def bob_def carol_def dave_def sock_alice_def sock_bob_def sock_carol_def
  sock_dave_def team_def lobby_def on_g1_def no_content_def on_nowhere_def
  no_credential_def bad_credential_def empty_bearer_def header_credential_def

section \<open>Facts about the primitives\<close>

lemma count_list_distinct:
  "distinct xs \<Longrightarrow> count_list xs c = (if c \<in> set xs then 1 else 0)"
  by (induction xs) auto

lemma distinct_room_sockets: "distinct (room_sockets w r)"
  by (simp add: room_sockets_def)

lemma set_room_sockets:
  "set (room_sockets w r) = {i \<in> set (rooms w r). sockets w i \<noteq> None}"
  by (auto simp: room_sockets_def)

lemma count_others:
  "count_list (filter (\<lambda>i. i \<noteq> sid) (room_sockets w r)) c =
     (if c \<in> set (rooms w r) \<and> sockets w c \<noteq> None \<and> c \<noteq> sid then 1 else 0)"
  using count_list_distinct [of "filter (\<lambda>i. i \<noteq> sid) (room_sockets w r)" c]
  by (auto simp: distinct_room_sockets set_room_sockets)

lemma count_all:
  "count_list (room_sockets w r) c =
     (if c \<in> set (rooms w r) \<and> sockets w c \<noteq> None then 1 else 0)"
  using count_list_distinct [of "room_sockets w r" c]
  by (auto simp: distinct_room_sockets set_room_sockets)

lemma room_sockets_cong:
  "rooms w1 r = rooms w2 r \<Longrightarrow> sockets w1 = sockets w2 \<Longrightarrow>
   room_sockets w1 r = room_sockets w2 r"
  by (simp add: room_sockets_def)

lemma set_set_add: "set (set_add x xs) = insert x (set xs)"
  by (auto simp: set_add_def)

lemma getGroupById_Doc: "findById w gid = Doc g \<Longrightarrow> getGroupById w gid = Inr g"
  by (simp add: getGroupById_def)

lemma track_join_fields:
  "rooms (track_join uid gid w) = rooms w"
  "sockets (track_join uid gid w) = sockets w"
  "outbox (track_join uid gid w) = outbox w"
  "messages (track_join uid gid w) = messages w"
  by (simp_all add: track_join_def Let_def)

lemma track_join_entry:
  "\<exists>gs. globalActiveUsers (track_join uid gid w) uid = Some gs \<and> gid \<in> set gs"
  by (simp add: track_join_def Let_def set_add_def)

lemma socket_join_fields:
  "rooms (socket_join sid r w) r = set_add sid (rooms w r)"
  "sockets (socket_join sid r w) = sockets w"
  "outbox (socket_join sid r w) = outbox w"
  "globalActiveUsers (socket_join sid r w) = globalActiveUsers w"
  by (simp_all add: socket_join_def)

lemma socket_to_emit_fields:
  "rooms (socket_to_emit sid r ev w) = rooms w"
  "sockets (socket_to_emit sid r ev w) = sockets w"
  "globalActiveUsers (socket_to_emit sid r ev w) = globalActiveUsers w"
  "messages (socket_to_emit sid r ev w) = messages w"
  "outbox (socket_to_emit sid r ev w) =
     outbox w @ [(filter (\<lambda>i. i \<noteq> sid) (room_sockets w r), ev)]"
  by (simp_all add: socket_to_emit_def)

lemma notify_offline_fields:
  "rooms (notify_offline s g w) = rooms w"
  "sockets (notify_offline s g w) = sockets w"
  "globalActiveUsers (notify_offline s g w) = globalActiveUsers w"
  "outbox (notify_offline s g w) =
     outbox w @ [(filter (\<lambda>i. i \<noteq> sock_id s) (room_sockets w (group_room g)),
                  UserInactive (userId (sock_user s)) (email (sock_user s)) g ''offline'')]"
  by (simp_all add: notify_offline_def socket_to_emit_fields)

text \<open>The sweep of \<open>handleDisconnect\<close> appends one emit per group and changes nothing else.\<close>

lemma fold_notify_offline:
  "rooms (fold (notify_offline s) gs w) = rooms w \<and>
   sockets (fold (notify_offline s) gs w) = sockets w \<and>
   globalActiveUsers (fold (notify_offline s) gs w) = globalActiveUsers w \<and>
   outbox (fold (notify_offline s) gs w) =
     outbox w @ map (\<lambda>g. (filter (\<lambda>i. i \<noteq> sock_id s) (room_sockets w (group_room g)),
       UserInactive (userId (sock_user s)) (email (sock_user s)) g ''offline'')) gs"
proof (induction gs arbitrary: w)
  case Nil
  show ?case by simp
next
  case (Cons g gs)
  have rs: "room_sockets (notify_offline s g w) r = room_sockets w r" for r
    by (rule room_sockets_cong) (simp_all add: notify_offline_fields)
  show ?case
    by (simp add: Cons.IH notify_offline_fields rs)
qed

lemma cleanup_fields:
  "rooms (cleanup sid w) r = removeAll sid (rooms w r)"
  "sockets (cleanup sid w) = (sockets w)(sid := None)"
  "globalActiveUsers (cleanup sid w) = globalActiveUsers w"
  "outbox (cleanup sid w) = outbox w"
  by (simp_all add: cleanup_def set_delete_def)

lemma track_leave_fields:
  "rooms (track_leave uid gid w) = rooms w"
  "sockets (track_leave uid gid w) = sockets w"
  "outbox (track_leave uid gid w) = outbox w"
  by (simp_all add: track_leave_def split: option.splits)

lemma track_leave_idem:
  "globalActiveUsers (track_leave uid gid (track_leave uid gid w)) =
   globalActiveUsers (track_leave uid gid w)"
  by (auto simp: track_leave_def set_delete_def split: option.splits)

lemma track_leave_gau_cong:
  "globalActiveUsers w1 = globalActiveUsers w2 \<Longrightarrow>
   globalActiveUsers (track_leave uid gid w1) = globalActiveUsers (track_leave uid gid w2)"
  by (auto simp: track_leave_def split: option.splits)

lemma socket_leave_fields:
  "rooms (socket_leave sid r w) = (rooms w)(r := removeAll sid (rooms w r))"
  "sockets (socket_leave sid r w) = sockets w"
  "outbox (socket_leave sid r w) = outbox w"
  "globalActiveUsers (socket_leave sid r w) = globalActiveUsers w"
  by (simp_all add: socket_leave_def set_delete_def)

lemma leave_once:
  assumes "groupId dat = Some gid" and "gid \<noteq> []"
  shows "handleLeaveGroup s (Some dat) w =
     (\<lparr>success = True, message = Some ''Successfully left group room'', error = None,
       data = None\<rparr>,
      socket_to_emit (sock_id s) (group_room gid)
        (UserInactive (userId (sock_user s)) (email (sock_user s)) gid ''offline'')
        (track_leave (userId (sock_user s)) gid
           (socket_leave (sock_id s) (group_room gid) w)))"
  using assms by (simp add: handleLeaveGroup_def truthy_def Let_def ack_ok_def)

lemma ack_fail_success [simp]: "success (ack_fail m e) = False"
  by (simp add: ack_fail_def)

lemma handleError_success [simp]: "success (handleError e d) = False"
  by (simp add: handleError_def)

lemma save_Inr:
  "save m w = Inr (m', w') \<Longrightarrow> m' = m \<and> w' = w\<lparr>messages := messages w @ [m]\<rparr>"
  by (auto simp: save_def split: if_splits option.splits)

lemma sendMessage_try_Inr:
  assumes "sendMessage_try now uid gid c w = Inr (m, w')"
  shows "(\<exists>g. findById w gid = Doc g \<and> isMember g uid)
     \<and> msg_content m = c \<and> msg_sender m = uid \<and> msg_group m = gid
     \<and> w' = w\<lparr>messages := messages w @ [m]\<rparr>"
  using assms
  by (auto simp: sendMessage_try_def split: find_outcome.splits if_splits sum.splits
      prod.splits dest!: save_Inr)

lemma sendMessage_Inr:
  assumes "sendMessage now uid gid c w = Inr (m, w')"
  shows "(\<exists>g. findById w gid = Doc g \<and> isMember g uid)
     \<and> msg_content m = c \<and> msg_sender m = uid \<and> msg_group m = gid
     \<and> w' = w\<lparr>messages := messages w @ [m]\<rparr>"
proof -
  from assms have "sendMessage_try now uid gid c w = Inr (m, w')"
    by (auto simp: sendMessage_def split: sum.splits if_splits)
  then show ?thesis by (rule sendMessage_try_Inr)
qed

lemma handleSendMessage_try_success:
  assumes "handleSendMessage_try now s gid c w = Inr (a, w')" and "success a"
  shows "\<exists>m. sendMessage now (userId (sock_user s)) gid c w =
            Inr (m, w\<lparr>messages := messages w @ [m]\<rparr>)
     \<and> a = \<lparr>success = True, message = Some ''Message sent successfully'', error = None,
            data = Some (MessageData m)\<rparr>
     \<and> w' = socket_to_emit (sock_id s) (group_room gid) (MessageNew True m)
              (w\<lparr>messages := messages w @ [m]\<rparr>)"
  using assms
  by (auto simp: handleSendMessage_try_def Let_def split: sum.splits if_splits prod.splits
      dest: sendMessage_Inr)

section \<open>Room router and presence tracker\<close>

text \<open>
  Claim C1. A join-group request of an authenticated connection whose user is an active
  member of an existing group succeeds: the acknowledgement has \<open>success = True\<close>, the
  connection is in the room afterwards, the presence map holds the group under the user,
  and exactly one \<open>user:active\<close> event for that user and group is emitted, delivered
  once to each other connection that was already in the room, to no one else, and not to
  the joining connection.
\<close>

theorem join_active_member:
  assumes "findById w gid = Doc g"
    and "isMember g (userId (sock_user s))"
    and "groupId dat = Some gid" and "gid \<noteq> []"
  shows "\<exists>w' rcpts.
     handleJoinGroup s (Some dat) w =
       (\<lparr>success = True, message = Some ''Successfully joined group room'',
         error = None, data = None\<rparr>, w')
     \<and> sock_id s \<in> set (rooms w' (group_room gid))
     \<and> (\<exists>gs. globalActiveUsers w' (userId (sock_user s)) = Some gs \<and> gid \<in> set gs)
     \<and> outbox w' = outbox w @
          [(rcpts, UserActive (userId (sock_user s)) (email (sock_user s)) gid ''online'')]
     \<and> (\<forall>c. count_list rcpts c =
            (if c \<in> set (rooms w (group_room gid)) \<and> sockets w c \<noteq> None
                \<and> c \<noteq> sock_id s then 1 else 0))
     \<and> sock_id s \<notin> set rcpts"
proof -
  let ?sid = "sock_id s" and ?uid = "userId (sock_user s)" and ?r = "group_room gid"
  let ?w1 = "socket_join ?sid ?r w"
  let ?w2 = "track_join ?uid gid ?w1"
  let ?ev = "UserActive ?uid (email (sock_user s)) gid ''online''"
  let ?w3 = "socket_to_emit ?sid ?r ?ev ?w2"
  let ?rc = "filter (\<lambda>i. i \<noteq> ?sid) (room_sockets ?w2 ?r)"
  have run: "handleJoinGroup s (Some dat) w =
      (\<lparr>success = True, message = Some ''Successfully joined group room'',
        error = None, data = None\<rparr>, ?w3)"
    using assms
    by (simp add: handleJoinGroup_def truthy_def joinGroup_try_def getGroupById_Doc
        Let_def ack_ok_def)
  have in_room: "?sid \<in> set (rooms ?w3 ?r)"
    by (simp add: socket_to_emit_fields track_join_fields socket_join_fields set_set_add)
  have tracked: "\<exists>gs. globalActiveUsers ?w3 ?uid = Some gs \<and> gid \<in> set gs"
    by (simp add: socket_to_emit_fields track_join_entry)
  have out: "outbox ?w3 = outbox w @ [(?rc, ?ev)]"
    by (simp add: socket_to_emit_fields track_join_fields socket_join_fields)
  have cnt: "count_list ?rc c =
       (if c \<in> set (rooms w ?r) \<and> sockets w c \<noteq> None \<and> c \<noteq> ?sid then 1 else 0)" for c
    by (auto simp add: count_others track_join_fields socket_join_fields set_set_add)
  have self: "?sid \<notin> set ?rc" by simp
  from run in_room tracked out cnt self show ?thesis by blast
qed

theorem join_active_member_witness:
  "findById lobby ''g1'' = Doc team
   \<and> isMember team (userId (sock_user sock_alice))
   \<and> groupId on_g1 = Some ''g1''
   \<and> (\<exists>w' rcpts.
     handleJoinGroup sock_alice (Some on_g1) lobby =
       (\<lparr>success = True, message = Some ''Successfully joined group room'',
         error = None, data = None\<rparr>, w')
     \<and> sock_id sock_alice \<in> set (rooms w' (group_room ''g1''))
     \<and> (\<exists>gs. globalActiveUsers w' (userId (sock_user sock_alice)) = Some gs
             \<and> ''g1'' \<in> set gs)
     \<and> outbox w' = outbox lobby @
          [(rcpts, UserActive (userId (sock_user sock_alice)) (email (sock_user sock_alice))
                     ''g1'' ''online'')]
     \<and> (\<forall>c. count_list rcpts c =
            (if c \<in> set (rooms lobby (group_room ''g1'')) \<and> sockets lobby c \<noteq> None
                \<and> c \<noteq> sock_id sock_alice then 1 else 0))
     \<and> sock_id sock_alice \<notin> set rcpts)
   \<and> outbox (snd (handleJoinGroup sock_alice (Some on_g1) lobby)) =
       [([''s2'', ''s4'', ''s5''], UserActive ''u1'' ''alice@example.com'' ''g1'' ''online'')]"
proof -
  have h1: "findById lobby ''g1'' = Doc team" by (simp add: lobby_def)
  have h2: "isMember team (userId (sock_user sock_alice))"
    by (simp add: isMember_def team_def sock_alice_def alice_def)
  have h3: "groupId on_g1 = Some ''g1''" by (simp add: on_g1_def)
  have h4: "''g1'' \<noteq> []" by simp
  have run: "outbox (snd (handleJoinGroup sock_alice (Some on_g1) lobby)) =
       [([''s2'', ''s4'', ''s5''], UserActive ''u1'' ''alice@example.com'' ''g1'' ''online'')]"
    by (simp add: handleJoinGroup_def joinGroup_try_def getGroupById_def isMember_def
        truthy_def socket_join_def track_join_def socket_to_emit_def room_sockets_def
        set_add_def group_room_def ack_ok_def Let_def demo_defs)
  from join_active_member [OF h1 h2 h3 h4] h1 h2 h3 run show ?thesis by blast
qed

text \<open>
  Claim C2. When a connection closes whose user has the groups \<open>gs\<close> in the presence
  map, exactly one \<open>user:inactive\<close> event is emitted per group of \<open>gs\<close>, each
  delivered once to every connection remaining in that group's room and to no other, and
  afterwards the presence map has no entry for the user. (The user id of an issued token is
  never empty.)
\<close>

theorem disconnect_notifies_each_group:
  assumes "globalActiveUsers w (userId (sock_user s)) = Some gs"
    and "userId (sock_user s) \<noteq> []"
  shows "\<exists>rc.
     outbox (disconnect s w) =
       outbox w @ map (\<lambda>g. (rc g, UserInactive (userId (sock_user s)) (email (sock_user s))
                                    g ''offline'')) gs
     \<and> (\<forall>g c. count_list (rc g) c =
            (if c \<in> set (rooms w (group_room g)) \<and> sockets w c \<noteq> None
                \<and> c \<noteq> sock_id s then 1 else 0))
     \<and> globalActiveUsers (disconnect s w) (userId (sock_user s)) = None"
proof -
  let ?sid = "sock_id s" and ?uid = "userId (sock_user s)"
  let ?w0 = "cleanup ?sid w"
  let ?rc = "\<lambda>g. filter (\<lambda>i. i \<noteq> ?sid) (room_sockets ?w0 (group_room g))"
  let ?w1 = "fold (notify_offline s) gs ?w0"
  have run: "disconnect s w = ?w1\<lparr>globalActiveUsers := (globalActiveUsers ?w1)(?uid := None)\<rparr>"
    using assms by (simp add: disconnect_def handleDisconnect_def cleanup_fields Let_def)
  have out: "outbox (disconnect s w) =
       outbox w @ map (\<lambda>g. (?rc g, UserInactive ?uid (email (sock_user s)) g ''offline'')) gs"
    by (simp add: run fold_notify_offline cleanup_fields)
  have cnt: "count_list (?rc g) c =
       (if c \<in> set (rooms w (group_room g)) \<and> sockets w c \<noteq> None \<and> c \<noteq> ?sid
        then 1 else 0)" for g c
    by (auto simp add: count_others cleanup_fields)
  have gone: "globalActiveUsers (disconnect s w) ?uid = None"
    by (simp add: run)
  show ?thesis by (rule exI [of _ ?rc]) (simp add: out cnt gone)
qed

theorem disconnect_notifies_each_group_witness:
  "globalActiveUsers lobby (userId (sock_user sock_bob)) = Some [''g1'', ''g2'', ''g3'']
   \<and> userId (sock_user sock_bob) \<noteq> []
   \<and> (\<exists>rc.
     outbox (disconnect sock_bob lobby) =
       outbox lobby @ map (\<lambda>g. (rc g, UserInactive (userId (sock_user sock_bob))
                                    (email (sock_user sock_bob)) g ''offline''))
                          [''g1'', ''g2'', ''g3'']
     \<and> (\<forall>g c. count_list (rc g) c =
            (if c \<in> set (rooms lobby (group_room g)) \<and> sockets lobby c \<noteq> None
                \<and> c \<noteq> sock_id sock_bob then 1 else 0))
     \<and> globalActiveUsers (disconnect sock_bob lobby) (userId (sock_user sock_bob)) = None)
   \<and> outbox (disconnect sock_bob lobby) =
       [([''s4'', ''s5''], UserInactive ''u2'' ''bob@example.com'' ''g1'' ''offline''),
        ([''s1''], UserInactive ''u2'' ''bob@example.com'' ''g2'' ''offline''),
        ([], UserInactive ''u2'' ''bob@example.com'' ''g3'' ''offline'')]"
proof -
  have h1: "globalActiveUsers lobby (userId (sock_user sock_bob)) =
              Some [''g1'', ''g2'', ''g3'']"
    by (simp add: lobby_def sock_bob_def bob_def)
  have h2: "userId (sock_user sock_bob) \<noteq> []" by (simp add: sock_bob_def bob_def)
  have run: "outbox (disconnect sock_bob lobby) =
       [([''s4'', ''s5''], UserInactive ''u2'' ''bob@example.com'' ''g1'' ''offline''),
        ([''s1''], UserInactive ''u2'' ''bob@example.com'' ''g2'' ''offline''),
        ([], UserInactive ''u2'' ''bob@example.com'' ''g3'' ''offline'')]"
    by (simp add: disconnect_def handleDisconnect_def cleanup_def notify_offline_def
        socket_to_emit_def room_sockets_def set_delete_def group_room_def Let_def demo_defs)
  from disconnect_notifies_each_group [OF h1 h2] h1 h2 run show ?thesis by blast
qed

text \<open>
  Claim C3, as amended. Two leave-group requests in a row for the same room: the second
  is acknowledged with success, and it leaves the room table and the presence map as the
  first call left them. Each of the two calls emits one \<open>user:inactive\<close> event to the
  connections remaining in the room: the handler does not look whether the connection was
  in the room, so the second call repeats the event of the first.
\<close>

theorem leave_twice:
  assumes "groupId dat = Some gid" and "gid \<noteq> []"
  shows "\<exists>a1 w1 a2 w2 rc.
     handleLeaveGroup s (Some dat) w = (a1, w1)
     \<and> handleLeaveGroup s (Some dat) w1 = (a2, w2)
     \<and> a2 = \<lparr>success = True, message = Some ''Successfully left group room'',
             error = None, data = None\<rparr>
     \<and> rooms w2 = rooms w1
     \<and> globalActiveUsers w2 = globalActiveUsers w1
     \<and> outbox w1 = outbox w @
          [(rc, UserInactive (userId (sock_user s)) (email (sock_user s)) gid ''offline'')]
     \<and> outbox w2 = outbox w1 @
          [(rc, UserInactive (userId (sock_user s)) (email (sock_user s)) gid ''offline'')]
     \<and> (\<forall>c. count_list rc c =
           (if c \<in> set (rooms w (group_room gid)) \<and> sockets w c \<noteq> None
               \<and> c \<noteq> sock_id s then 1 else 0))"
proof -
  let ?sid = "sock_id s" and ?uid = "userId (sock_user s)" and ?r = "group_room gid"
  let ?ev = "UserInactive ?uid (email (sock_user s)) gid ''offline''"
  let ?step = "\<lambda>v. socket_to_emit ?sid ?r ?ev (track_leave ?uid gid (socket_leave ?sid ?r v))"
  let ?ok = "\<lparr>success = True, message = Some ''Successfully left group room'',
              error = None, data = None\<rparr>"
  let ?w1 = "?step w" and ?w2 = "?step (?step w)"
  let ?rc = "filter (\<lambda>i. i \<noteq> ?sid) (room_sockets (socket_leave ?sid ?r w) ?r)"
  have r1: "handleLeaveGroup s (Some dat) w = (?ok, ?w1)"
    by (rule leave_once [OF assms])
  have r2: "handleLeaveGroup s (Some dat) ?w1 = (?ok, ?w2)"
    by (rule leave_once [OF assms])
  have rooms2: "rooms ?w2 = rooms ?w1"
    by (simp add: socket_to_emit_fields track_leave_fields socket_leave_fields)
  have gau2: "globalActiveUsers ?w2 = globalActiveUsers ?w1"
  proof -
    have "globalActiveUsers (socket_leave ?sid ?r ?w1) =
          globalActiveUsers (track_leave ?uid gid (socket_leave ?sid ?r w))"
      by (simp add: socket_leave_fields socket_to_emit_fields)
    from track_leave_gau_cong [OF this, of ?uid gid] show ?thesis
      by (simp add: socket_to_emit_fields track_leave_idem)
  qed
  have rs1: "room_sockets (track_leave ?uid gid (socket_leave ?sid ?r w)) ?r =
             room_sockets (socket_leave ?sid ?r w) ?r"
    by (rule room_sockets_cong) (simp_all add: track_leave_fields)
  have rs2: "room_sockets (track_leave ?uid gid (socket_leave ?sid ?r ?w1)) ?r =
             room_sockets (socket_leave ?sid ?r w) ?r"
    by (rule room_sockets_cong)
       (simp_all add: track_leave_fields socket_leave_fields socket_to_emit_fields)
  have out1: "outbox ?w1 = outbox w @ [(?rc, ?ev)]"
    by (simp add: socket_to_emit_fields track_leave_fields socket_leave_fields rs1)
  have out2: "outbox ?w2 = outbox ?w1 @ [(?rc, ?ev)]"
    unfolding socket_to_emit_fields(5)
      [of ?sid ?r ?ev "track_leave ?uid gid (socket_leave ?sid ?r ?w1)"] rs2
    by (simp add: track_leave_fields socket_leave_fields)
  have cnt: "count_list ?rc c =
       (if c \<in> set (rooms w ?r) \<and> sockets w c \<noteq> None \<and> c \<noteq> ?sid then 1 else 0)" for c
    by (auto simp add: count_others socket_leave_fields)
  from r1 r2 rooms2 gau2 out1 out2 cnt show ?thesis by blast
qed

theorem leave_twice_witness:
  "groupId on_g1 = Some ''g1''
   \<and> (\<exists>a1 w1 a2 w2 rc.
     handleLeaveGroup sock_dave (Some on_g1) lobby = (a1, w1)
     \<and> handleLeaveGroup sock_dave (Some on_g1) w1 = (a2, w2)
     \<and> a2 = \<lparr>success = True, message = Some ''Successfully left group room'',
             error = None, data = None\<rparr>
     \<and> rooms w2 = rooms w1
     \<and> globalActiveUsers w2 = globalActiveUsers w1
     \<and> outbox w1 = outbox lobby @
          [(rc, UserInactive (userId (sock_user sock_dave)) (email (sock_user sock_dave))
                  ''g1'' ''offline'')]
     \<and> outbox w2 = outbox w1 @
          [(rc, UserInactive (userId (sock_user sock_dave)) (email (sock_user sock_dave))
                  ''g1'' ''offline'')]
     \<and> (\<forall>c. count_list rc c =
           (if c \<in> set (rooms lobby (group_room ''g1'')) \<and> sockets lobby c \<noteq> None
               \<and> c \<noteq> sock_id sock_dave then 1 else 0)))"
proof -
  have h1: "groupId on_g1 = Some ''g1''" by (simp add: on_g1_def)
  have h2: "''g1'' \<noteq> []" by simp
  from leave_twice [OF h1 h2] h1 show ?thesis by blast
qed

text \<open>
  The claim as first stated fails: dave leaves \<open>g1\<close> twice, and the second call delivers
  a second \<open>user:inactive\<close> event to the two connections that remain in the room.
\<close>

theorem leave_twice_counterexample:
  "outbox (snd (handleLeaveGroup sock_dave (Some on_g1) lobby)) =
     [([''s2'', ''s4''], UserInactive ''u4'' ''dave@example.com'' ''g1'' ''offline'')]
   \<and> outbox (snd (handleLeaveGroup sock_dave (Some on_g1)
               (snd (handleLeaveGroup sock_dave (Some on_g1) lobby)))) =
     [([''s2'', ''s4''], UserInactive ''u4'' ''dave@example.com'' ''g1'' ''offline''),
      ([''s2'', ''s4''], UserInactive ''u4'' ''dave@example.com'' ''g1'' ''offline'')]"
  by (simp add: handleLeaveGroup_def truthy_def socket_leave_def track_leave_def
      socket_to_emit_def room_sockets_def set_delete_def group_room_def ack_ok_def Let_def
      demo_defs)

section \<open>Message relay\<close>

text \<open>
  Claim C4. Every send-message request that is acknowledged with success comes from an
  active member of the group; the message object of the acknowledgement is the one that
  was persisted; exactly one \<open>message:new\<close> event with that same object is emitted,
  delivered once to each other connection of the room and never to the sender's
  connection, and the acknowledgement carries that object with the confirmation text.
\<close>

theorem send_message_success:
  assumes "handleSendMessage now s (Some dat) w = (a, w')" and "success a"
  shows "\<exists>gid c m rcpts.
     groupId dat = Some gid \<and> content dat = Some c
     \<and> (\<exists>g. findById w gid = Doc g \<and> isMember g (userId (sock_user s)))
     \<and> a = \<lparr>success = True, message = Some ''Message sent successfully'', error = None,
            data = Some (MessageData m)\<rparr>
     \<and> msg_content m = c \<and> msg_sender m = userId (sock_user s) \<and> msg_group m = gid
     \<and> messages w' = messages w @ [m]
     \<and> outbox w' = outbox w @ [(rcpts, MessageNew True m)]
     \<and> (\<forall>x. count_list rcpts x =
           (if x \<in> set (rooms w (group_room gid)) \<and> sockets w x \<noteq> None
               \<and> x \<noteq> sock_id s then 1 else 0))
     \<and> sock_id s \<notin> set rcpts"
proof -
  from assms obtain gid c where g: "groupId dat = Some gid" and c: "content dat = Some c"
    by (auto simp: handleSendMessage_def truthy_def split: if_splits option.splits)
  from assms g c have nonempty: "gid \<noteq> []" "c \<noteq> []"
    by (auto simp: handleSendMessage_def truthy_def split: if_splits)
  with assms g c have "handleSendMessage_try now s gid c w = Inr (a, w')"
    by (auto simp: handleSendMessage_def truthy_def split: sum.splits if_splits)
  from handleSendMessage_try_success [OF this assms(2)] obtain m where
    sm: "sendMessage now (userId (sock_user s)) gid c w =
           Inr (m, w\<lparr>messages := messages w @ [m]\<rparr>)"
    and a: "a = \<lparr>success = True, message = Some ''Message sent successfully'', error = None,
            data = Some (MessageData m)\<rparr>"
    and w': "w' = socket_to_emit (sock_id s) (group_room gid) (MessageNew True m)
              (w\<lparr>messages := messages w @ [m]\<rparr>)"
    by blast
  let ?wm = "w\<lparr>messages := messages w @ [m]\<rparr>"
  let ?rc = "filter (\<lambda>i. i \<noteq> sock_id s) (room_sockets ?wm (group_room gid))"
  from sendMessage_Inr [OF sm] have
    mem: "\<exists>g. findById w gid = Doc g \<and> isMember g (userId (sock_user s))"
    and fields: "msg_content m = c" "msg_sender m = userId (sock_user s)" "msg_group m = gid"
    by auto
  have msgs: "messages w' = messages w @ [m]"
    by (simp add: w' socket_to_emit_fields)
  have out: "outbox w' = outbox w @ [(?rc, MessageNew True m)]"
    by (simp add: w' socket_to_emit_fields)
  have cnt: "count_list ?rc x =
      (if x \<in> set (rooms w (group_room gid)) \<and> sockets w x \<noteq> None \<and> x \<noteq> sock_id s
       then 1 else 0)" for x
    by (simp add: count_others)
  have self: "sock_id s \<notin> set ?rc" by simp
  show ?thesis
    apply (rule exI [of _ gid], rule exI [of _ c], rule exI [of _ m], rule exI [of _ ?rc])
    using g c mem a fields msgs out cnt self by simp
qed

theorem send_message_success_witness:
  "handleSendMessage ''t0'' sock_alice (Some on_g1) lobby =
     (fst (handleSendMessage ''t0'' sock_alice (Some on_g1) lobby),
      snd (handleSendMessage ''t0'' sock_alice (Some on_g1) lobby))
   \<and> success (fst (handleSendMessage ''t0'' sock_alice (Some on_g1) lobby))
   \<and> (\<exists>gid c m rcpts.
     groupId on_g1 = Some gid \<and> content on_g1 = Some c
     \<and> (\<exists>g. findById lobby gid = Doc g \<and> isMember g (userId (sock_user sock_alice)))
     \<and> fst (handleSendMessage ''t0'' sock_alice (Some on_g1) lobby) =
          \<lparr>success = True, message = Some ''Message sent successfully'', error = None,
            data = Some (MessageData m)\<rparr>
     \<and> msg_content m = c \<and> msg_sender m = userId (sock_user sock_alice) \<and> msg_group m = gid
     \<and> messages (snd (handleSendMessage ''t0'' sock_alice (Some on_g1) lobby)) =
          messages lobby @ [m]
     \<and> outbox (snd (handleSendMessage ''t0'' sock_alice (Some on_g1) lobby)) =
          outbox lobby @ [(rcpts, MessageNew True m)]
     \<and> (\<forall>x. count_list rcpts x =
           (if x \<in> set (rooms lobby (group_room gid)) \<and> sockets lobby x \<noteq> None
               \<and> x \<noteq> sock_id sock_alice then 1 else 0))
     \<and> sock_id sock_alice \<notin> set rcpts)"
proof -
  have h1: "handleSendMessage ''t0'' sock_alice (Some on_g1) lobby =
     (fst (handleSendMessage ''t0'' sock_alice (Some on_g1) lobby),
      snd (handleSendMessage ''t0'' sock_alice (Some on_g1) lobby))"
    by simp
  have h2: "success (fst (handleSendMessage ''t0'' sock_alice (Some on_g1) lobby))"
    by (simp add: handleSendMessage_def handleSendMessage_try_def sendMessage_def
        sendMessage_try_def save_def encryptMessage_def trim_def is_space_def
        getGroupById_def isMember_def truthy_def Let_def demo_defs)
  from send_message_success [OF h1 h2] h1 h2 show ?thesis by blast
qed

text \<open>
  Claim C7, as amended. A send-message request whose payload is an object with the
  groupId missing, or with the content missing or empty, is answered by the
  acknowledgement \<open>INVALID_INPUT\<close> alone: the state is returned as it was, so nothing
  was persisted and nothing was emitted. A request whose payload is \<open>null\<close> or
  \<open>undefined\<close> never reaches that test: the destructuring throws and the request is
  answered by \<open>INTERNAL_ERROR\<close>, again with nothing persisted and nothing emitted.
\<close>

theorem send_message_invalid_input:
  "(\<not> truthy (groupId dat) \<or> \<not> truthy (content dat) \<longrightarrow>
      handleSendMessage now s (Some dat) w =
        (\<lparr>success = False, message = Some ''Group ID and message content are required'',
          error = Some ''INVALID_INPUT'', data = None\<rparr>, w))
   \<and> handleSendMessage now s None w =
        (\<lparr>success = False, message = Some ''Error sending message'',
          error = Some ''INTERNAL_ERROR'', data = None\<rparr>, w)"
  by (auto simp: handleSendMessage_def handleError_def js_error_def ack_fail_def)

theorem send_message_invalid_input_witness:
  "\<not> truthy (content no_content)
   \<and> handleSendMessage ''t0'' sock_alice (Some no_content) lobby =
     (\<lparr>success = False, message = Some ''Group ID and message content are required'',
       error = Some ''INVALID_INPUT'', data = None\<rparr>, lobby)
   \<and> messages (snd (handleSendMessage ''t0'' sock_alice (Some no_content) lobby)) = []
   \<and> outbox (snd (handleSendMessage ''t0'' sock_alice (Some no_content) lobby)) = []"
proof -
  have c: "\<not> truthy (content no_content)" by (simp add: truthy_def no_content_def)
  from send_message_invalid_input [of no_content "''t0''" sock_alice lobby] c
  have r: "handleSendMessage ''t0'' sock_alice (Some no_content) lobby =
     (\<lparr>success = False, message = Some ''Group ID and message content are required'',
       error = Some ''INVALID_INPUT'', data = None\<rparr>, lobby)"
    by blast
  have e: "messages lobby = [] \<and> outbox lobby = []" by (simp add: lobby_def)
  from c r e show ?thesis by simp
qed

text \<open>
  The claim as first stated fails: a send-message request with a \<open>null\<close> payload has
  no groupId and no content, and its acknowledgement is \<open>INTERNAL_ERROR\<close>, not
  \<open>INVALID_INPUT\<close>.
\<close>

theorem send_message_null_payload_counterexample:
  "handleSendMessage ''t0'' sock_alice None lobby =
     (\<lparr>success = False, message = Some ''Error sending message'',
       error = Some ''INTERNAL_ERROR'', data = None\<rparr>, lobby)
   \<and> error (fst (handleSendMessage ''t0'' sock_alice None lobby)) \<noteq> Some ''INVALID_INPUT''"
  by (simp add: handleSendMessage_def handleError_def js_error_def ack_fail_def)

text \<open>
  Claim C8, as amended. A read-receipt request whose payload holds both messageId and
  groupId emits one \<open>message:read\<close> event (messageId, the reader's userId and email, the
  server time) delivered once to every connection of the room, the reader's own connection
  included when it is in the room, and the acknowledgement holds the success flag only.
  When the payload is an object and one of the two fields is missing, the acknowledgement
  is \<open>INVALID_INPUT\<close> and nothing is emitted. When the payload is \<open>null\<close> or
  \<open>undefined\<close>, the destructuring throws: the acknowledgement is \<open>INTERNAL_ERROR\<close>
  and nothing is emitted.
\<close>

theorem read_receipt_room_wide:
  "(truthy (messageId dat) \<and> truthy (groupId dat) \<longrightarrow>
      (\<exists>rcpts. handleMessageRead now s (Some dat) w =
         (\<lparr>success = True, message = None, error = None, data = None\<rparr>,
          w\<lparr>outbox := outbox w @
               [(rcpts, MessageRead (the (messageId dat)) (userId (sock_user s))
                          (email (sock_user s)) now)]\<rparr>)
       \<and> (\<forall>x. count_list rcpts x =
             (if x \<in> set (rooms w (group_room (the (groupId dat)))) \<and> sockets w x \<noteq> None
              then 1 else 0))
       \<and> (sock_id s \<in> set (rooms w (group_room (the (groupId dat))))
            \<and> sockets w (sock_id s) \<noteq> None \<longrightarrow> sock_id s \<in> set rcpts)))
   \<and> (\<not> truthy (messageId dat) \<or> \<not> truthy (groupId dat) \<longrightarrow>
        handleMessageRead now s (Some dat) w =
          (\<lparr>success = False, message = Some ''Message ID and group ID are required'',
            error = Some ''INVALID_INPUT'', data = None\<rparr>, w))
   \<and> handleMessageRead now s None w =
        (\<lparr>success = False, message = Some ''Error processing read receipt'',
          error = Some ''INTERNAL_ERROR'', data = None\<rparr>, w)"
proof (intro conjI impI)
  assume t: "truthy (messageId dat) \<and> truthy (groupId dat)"
  show "\<exists>rcpts. handleMessageRead now s (Some dat) w =
         (\<lparr>success = True, message = None, error = None, data = None\<rparr>,
          w\<lparr>outbox := outbox w @
               [(rcpts, MessageRead (the (messageId dat)) (userId (sock_user s))
                          (email (sock_user s)) now)]\<rparr>)
       \<and> (\<forall>x. count_list rcpts x =
             (if x \<in> set (rooms w (group_room (the (groupId dat)))) \<and> sockets w x \<noteq> None
              then 1 else 0))
       \<and> (sock_id s \<in> set (rooms w (group_room (the (groupId dat))))
            \<and> sockets w (sock_id s) \<noteq> None \<longrightarrow> sock_id s \<in> set rcpts)"
    by (rule exI [of _ "room_sockets w (group_room (the (groupId dat)))"])
       (simp add: t handleMessageRead_def io_in_emit_def Let_def count_all set_room_sockets)
next
  assume "\<not> truthy (messageId dat) \<or> \<not> truthy (groupId dat)"
  then show "handleMessageRead now s (Some dat) w =
          (\<lparr>success = False, message = Some ''Message ID and group ID are required'',
            error = Some ''INVALID_INPUT'', data = None\<rparr>, w)"
    by (auto simp: handleMessageRead_def ack_fail_def)
next
  show "handleMessageRead now s None w =
        (\<lparr>success = False, message = Some ''Error processing read receipt'',
          error = Some ''INTERNAL_ERROR'', data = None\<rparr>, w)"
    by (simp add: handleMessageRead_def handleError_def js_error_def ack_fail_def)
qed

theorem read_receipt_room_wide_witness:
  "truthy (messageId on_g1) \<and> truthy (groupId on_g1)
   \<and> sock_id sock_bob \<in> set (rooms lobby (group_room (the (groupId on_g1))))
   \<and> sockets lobby (sock_id sock_bob) \<noteq> None
   \<and> (\<exists>rcpts. handleMessageRead ''t0'' sock_bob (Some on_g1) lobby =
         (\<lparr>success = True, message = None, error = None, data = None\<rparr>,
          lobby\<lparr>outbox := outbox lobby @
               [(rcpts, MessageRead (the (messageId on_g1)) (userId (sock_user sock_bob))
                          (email (sock_user sock_bob)) ''t0'')]\<rparr>)
        \<and> sock_id sock_bob \<in> set rcpts)
   \<and> outbox (snd (handleMessageRead ''t0'' sock_bob (Some on_g1) lobby)) =
        [([''s2'', ''s4'', ''s5''], MessageRead ''m1'' ''u2'' ''bob@example.com'' ''t0'')]
   \<and> \<not> truthy (messageId no_content)
   \<and> handleMessageRead ''t0'' sock_bob (Some no_content) lobby =
          (\<lparr>success = False, message = Some ''Message ID and group ID are required'',
            error = Some ''INVALID_INPUT'', data = None\<rparr>, lobby)"
proof -
  have h1: "truthy (messageId on_g1) \<and> truthy (groupId on_g1)"
    by (simp add: truthy_def on_g1_def)
  have h2: "sock_id sock_bob \<in> set (rooms lobby (group_room (the (groupId on_g1))))
            \<and> sockets lobby (sock_id sock_bob) \<noteq> None"
    by (simp add: group_room_def demo_defs)
  have h3: "\<not> truthy (messageId no_content) \<or> \<not> truthy (groupId no_content)"
    by (simp add: truthy_def no_content_def)
  from read_receipt_room_wide [of on_g1 "''t0''" sock_bob lobby] h1 h2
  have good: "\<exists>rcpts. handleMessageRead ''t0'' sock_bob (Some on_g1) lobby =
         (\<lparr>success = True, message = None, error = None, data = None\<rparr>,
          lobby\<lparr>outbox := outbox lobby @
               [(rcpts, MessageRead (the (messageId on_g1)) (userId (sock_user sock_bob))
                          (email (sock_user sock_bob)) ''t0'')]\<rparr>)
        \<and> sock_id sock_bob \<in> set rcpts"
    by blast
  have ev: "outbox (snd (handleMessageRead ''t0'' sock_bob (Some on_g1) lobby)) =
        [([''s2'', ''s4'', ''s5''], MessageRead ''m1'' ''u2'' ''bob@example.com'' ''t0'')]"
    by (simp add: handleMessageRead_def io_in_emit_def room_sockets_def truthy_def
        group_room_def Let_def demo_defs)
  from read_receipt_room_wide [of no_content "''t0''" sock_bob lobby] h3
  have bad: "handleMessageRead ''t0'' sock_bob (Some no_content) lobby =
          (\<lparr>success = False, message = Some ''Message ID and group ID are required'',
            error = Some ''INVALID_INPUT'', data = None\<rparr>, lobby)"
    by blast
  have m: "\<not> truthy (messageId no_content)" by (simp add: truthy_def no_content_def)
  from h1 h2 m good ev bad show ?thesis by blast
qed

text \<open>
  The claim as first stated fails: a read-receipt request with a \<open>null\<close> payload has
  neither field, and its acknowledgement is \<open>INTERNAL_ERROR\<close>, not \<open>INVALID_INPUT\<close>.
\<close>

theorem read_receipt_null_payload_counterexample:
  "handleMessageRead ''t0'' sock_bob None lobby =
     (\<lparr>success = False, message = Some ''Error processing read receipt'',
       error = Some ''INTERNAL_ERROR'', data = None\<rparr>, lobby)
   \<and> error (fst (handleMessageRead ''t0'' sock_bob None lobby)) \<noteq> Some ''INVALID_INPUT''"
  by (simp add: handleMessageRead_def handleError_def js_error_def ack_fail_def)

text \<open>
  Claim C10. The read-receipt handler never consults the group collection: with both
  fields present it acknowledges success and emits the \<open>message:read\<close> event into the
  room \<open>group:<groupId>\<close>, and it does exactly the same whatever \<open>findById\<close> would
  answer, a missing group and a group the reader is no member of included.
\<close>

theorem read_receipt_ignores_membership:
  assumes "truthy (messageId dat)" and "truthy (groupId dat)"
  shows "\<exists>w'. handleMessageRead now s (Some dat) w =
           (\<lparr>success = True, message = None, error = None, data = None\<rparr>, w')
     \<and> outbox w' = outbox w @
          [(room_sockets w (group_room (the (groupId dat))),
            MessageRead (the (messageId dat)) (userId (sock_user s)) (email (sock_user s))
              now)]
     \<and> handleMessageRead now s (Some dat) (w\<lparr>findById := f\<rparr>) =
           (\<lparr>success = True, message = None, error = None, data = None\<rparr>,
            w'\<lparr>findById := f\<rparr>)"
  using assms
  by (simp add: handleMessageRead_def io_in_emit_def Let_def room_sockets_def)

theorem read_receipt_ignores_membership_witness:
  "truthy (messageId on_nowhere) \<and> truthy (groupId on_nowhere)
   \<and> findById lobby (the (groupId on_nowhere)) = NoDoc
   \<and> (\<exists>w'. handleMessageRead ''t0'' sock_carol (Some on_nowhere) lobby =
           (\<lparr>success = True, message = None, error = None, data = None\<rparr>, w')
     \<and> outbox w' = outbox lobby @
          [(room_sockets lobby (group_room (the (groupId on_nowhere))),
            MessageRead (the (messageId on_nowhere)) (userId (sock_user sock_carol))
              (email (sock_user sock_carol)) ''t0'')]
     \<and> handleMessageRead ''t0'' sock_carol (Some on_nowhere)
           (lobby\<lparr>findById := (\<lambda>i. Doc team)\<rparr>) =
           (\<lparr>success = True, message = None, error = None, data = None\<rparr>,
            w'\<lparr>findById := (\<lambda>i. Doc team)\<rparr>))"
proof -
  have h1: "truthy (messageId on_nowhere)" by (simp add: truthy_def on_nowhere_def)
  have h2: "truthy (groupId on_nowhere)" by (simp add: truthy_def on_nowhere_def)
  have h3: "findById lobby (the (groupId on_nowhere)) = NoDoc"
    by (simp add: on_nowhere_def lobby_def)
  from read_receipt_ignores_membership [OF h1 h2, of "''t0''" sock_carol lobby "\<lambda>i. Doc team"]
    h1 h2 h3 show ?thesis by blast
qed

section \<open>Rejected joins, the gateway and the active-users query\<close>

text \<open>
  Claim C5. A join-group request by a user whose membership is pending must be answered
  with the error \<open>NOT_GROUP_MEMBER\<close>. The handler builds the authorization error with
  that code but answers with \<open>error.code\<close>, a property the error classes never set
  (they store the code as \<open>errorCode\<close>): carol, pending in \<open>g1\<close>, gets an
  acknowledgement whose error is undefined. The state is left as it was.
\<close>

theorem join_pending_member_no_code:
  "handleJoinGroup sock_carol (Some on_g1) lobby =
     (\<lparr>success = False, message = Some ''You are not a member of this group'',
       error = None, data = None\<rparr>, lobby)
   \<and> err_errorCode (AuthorizationError ''You are not a member of this group''
        ''NOT_GROUP_MEMBER'') = Some ''NOT_GROUP_MEMBER''
   \<and> err_code (AuthorizationError ''You are not a member of this group''
        ''NOT_GROUP_MEMBER'') = None"
  by (simp add: handleJoinGroup_def joinGroup_try_def getGroupById_def isMember_def
      truthy_def AuthorizationError_def AppError_def ack_fail_def demo_defs)

text \<open>
  Claim C6. Every connection attempt falls in one of three cases, by the token the
  middleware extracts. With no token (in particular with no token in the auth payload and
  no authorization header, and also when nothing is left of the header once \<open>Bearer \<close>
  is removed) the attempt is rejected with an authentication error whose code is
  \<open>NO_AUTH_TOKEN\<close> and the state is untouched: no socket is registered and nothing is
  emitted. With a token that does not verify it is rejected with an authentication error
  whose code is \<open>INVALID_TOKEN\<close>, again with the state untouched, so no identity is
  attached. With a token that verifies, \<open>{userId, email}\<close> of its claims is attached to
  the socket and \<open>connect:success\<close> is emitted to it with the user id, the email, the
  socket id and the server time.
\<close>

theorem connection_gateway:
  "(\<not> truthy (auth_token h) \<and> authorization h = None \<longrightarrow>
      \<not> truthy (handshake_token h))
   \<and> (\<not> truthy (handshake_token h) \<longrightarrow>
      connect sid now h w =
        (Inl \<lparr>err_class = AuthenticationErrorC, err_name = ''Error'',
               err_message = ''Authentication error'', err_statusCode = Some 401,
               err_errorCode = Some ''NO_AUTH_TOKEN'', err_code = None\<rparr>, w))
   \<and> (truthy (handshake_token h) \<and> verifyToken w (the (handshake_token h)) = None \<longrightarrow>
      connect sid now h w =
        (Inl \<lparr>err_class = AuthenticationErrorC, err_name = ''Error'',
               err_message = ''Invalid or expired token'', err_statusCode = Some 401,
               err_errorCode = Some ''INVALID_TOKEN'', err_code = None\<rparr>, w))
   \<and> (truthy (handshake_token h) \<and> verifyToken w (the (handshake_token h)) = Some u \<longrightarrow>
      connect sid now h w =
        (Inr \<lparr>sock_id = sid, sock_user = \<lparr>userId = userId u, email = email u\<rparr>\<rparr>,
         w\<lparr>sockets := (sockets w)(sid \<mapsto> \<lparr>userId = userId u, email = email u\<rparr>),
           outbox := outbox w @ [([sid], ConnectSuccess (userId u) (email u) sid now)]\<rparr>))"
  by (auto simp: connect_def authMiddleware_def handshake_token_def truthy_def Let_def
      socket_emit_def AuthenticationError_def AppError_def)

theorem connection_gateway_witness:
  "\<not> truthy (auth_token no_credential) \<and> authorization no_credential = None
   \<and> \<not> truthy (handshake_token no_credential)
   \<and> connect ''s9'' ''t0'' no_credential lobby =
        (Inl \<lparr>err_class = AuthenticationErrorC, err_name = ''Error'',
               err_message = ''Authentication error'', err_statusCode = Some 401,
               err_errorCode = Some ''NO_AUTH_TOKEN'', err_code = None\<rparr>, lobby)
   \<and> authorization empty_bearer = Some ''Bearer ''
   \<and> \<not> truthy (handshake_token empty_bearer)
   \<and> connect ''s9'' ''t0'' empty_bearer lobby =
        (Inl \<lparr>err_class = AuthenticationErrorC, err_name = ''Error'',
               err_message = ''Authentication error'', err_statusCode = Some 401,
               err_errorCode = Some ''NO_AUTH_TOKEN'', err_code = None\<rparr>, lobby)
   \<and> truthy (handshake_token bad_credential)
   \<and> verifyToken lobby (the (handshake_token bad_credential)) = None
   \<and> connect ''s9'' ''t0'' bad_credential lobby =
        (Inl \<lparr>err_class = AuthenticationErrorC, err_name = ''Error'',
               err_message = ''Invalid or expired token'', err_statusCode = Some 401,
               err_errorCode = Some ''INVALID_TOKEN'', err_code = None\<rparr>, lobby)
   \<and> truthy (handshake_token header_credential)
   \<and> verifyToken lobby (the (handshake_token header_credential)) = Some alice
   \<and> connect ''s9'' ''t0'' header_credential lobby =
        (Inr \<lparr>sock_id = ''s9'', sock_user = \<lparr>userId = userId alice, email = email alice\<rparr>\<rparr>,
         lobby\<lparr>sockets := (sockets lobby)(''s9'' \<mapsto>
                  \<lparr>userId = userId alice, email = email alice\<rparr>),
           outbox := outbox lobby @
             [([''s9''], ConnectSuccess (userId alice) (email alice) ''s9'' ''t0'')]\<rparr>)"
proof -
  have h0: "\<not> truthy (auth_token no_credential) \<and> authorization no_credential = None"
    by (simp add: truthy_def no_credential_def)
  from connection_gateway [of no_credential] h0
  have h1: "\<not> truthy (handshake_token no_credential)" by blast
  have e0: "authorization empty_bearer = Some ''Bearer ''" by (simp add: empty_bearer_def)
  have h1': "\<not> truthy (handshake_token empty_bearer)"
    by (simp add: handshake_token_def truthy_def empty_bearer_def)
  have h2: "truthy (handshake_token bad_credential)
        \<and> verifyToken lobby (the (handshake_token bad_credential)) = None"
    by (simp add: handshake_token_def truthy_def verifyToken_def bad_credential_def lobby_def)
  have h3: "truthy (handshake_token header_credential)
        \<and> verifyToken lobby (the (handshake_token header_credential)) = Some alice"
    by (simp add: handshake_token_def truthy_def verifyToken_def header_credential_def
        lobby_def)
  from connection_gateway [of no_credential "''s9''" "''t0''" lobby] h1
  have r1: "connect ''s9'' ''t0'' no_credential lobby =
        (Inl \<lparr>err_class = AuthenticationErrorC, err_name = ''Error'',
               err_message = ''Authentication error'', err_statusCode = Some 401,
               err_errorCode = Some ''NO_AUTH_TOKEN'', err_code = None\<rparr>, lobby)"
    by blast
  from connection_gateway [of empty_bearer "''s9''" "''t0''" lobby] h1'
  have r1': "connect ''s9'' ''t0'' empty_bearer lobby =
        (Inl \<lparr>err_class = AuthenticationErrorC, err_name = ''Error'',
               err_message = ''Authentication error'', err_statusCode = Some 401,
               err_errorCode = Some ''NO_AUTH_TOKEN'', err_code = None\<rparr>, lobby)"
    by blast
  from connection_gateway [of bad_credential "''s9''" "''t0''" lobby] h2
  have r2: "connect ''s9'' ''t0'' bad_credential lobby =
        (Inl \<lparr>err_class = AuthenticationErrorC, err_name = ''Error'',
               err_message = ''Invalid or expired token'', err_statusCode = Some 401,
               err_errorCode = Some ''INVALID_TOKEN'', err_code = None\<rparr>, lobby)"
    by blast
  from connection_gateway [of header_credential "''s9''" "''t0''" lobby alice] h3
  have r3: "connect ''s9'' ''t0'' header_credential lobby =
        (Inr \<lparr>sock_id = ''s9'', sock_user = \<lparr>userId = userId alice, email = email alice\<rparr>\<rparr>,
         lobby\<lparr>sockets := (sockets lobby)(''s9'' \<mapsto>
                  \<lparr>userId = userId alice, email = email alice\<rparr>),
           outbox := outbox lobby @
             [([''s9''], ConnectSuccess (userId alice) (email alice) ''s9'' ''t0'')]\<rparr>)"
    by blast
  from h0 h1 e0 h1' h2 h3 r1 r1' r2 r3 show ?thesis by blast
qed

text \<open>
  Claim C9, as amended. A get-active-users request by an active member of an existing
  group is acknowledged with one entry per connection that is in the room, each with the
  userId and email of that connection and the status \<open>online\<close>; a user with several
  connections in the room is listed once per connection. A request for a group that does
  not exist is answered with \<open>GROUP_NOT_FOUND\<close>, and a request by a user who is no
  active member is rejected with the message \<open>You are not a member of this group\<close>. The
  state is unchanged in all three cases.
\<close>

theorem active_users_per_connection:
  assumes "groupId dat = Some gid" and "gid \<noteq> []"
  shows "(findById w gid = Doc g \<and> isMember g (userId (sock_user s)) \<longrightarrow>
      (\<exists>conns. handleGetActiveUsers s (Some dat) w =
         (\<lparr>success = True, message = None, error = None,
           data = Some (UsersData (map (\<lambda>i. \<lparr>au_userId = userId (the (sockets w i)),
                                              au_email = email (the (sockets w i)),
                                              au_status = ''online''\<rparr>) conns))\<rparr>, w)
        \<and> (\<forall>x. count_list conns x =
              (if x \<in> set (rooms w (group_room gid)) \<and> sockets w x \<noteq> None
               then 1 else 0))))
   \<and> (findById w gid = NoDoc \<longrightarrow>
        handleGetActiveUsers s (Some dat) w =
          (\<lparr>success = False, message = Some ''Group not found'',
            error = Some ''GROUP_NOT_FOUND'', data = None\<rparr>, w))
   \<and> (findById w gid = Doc g \<and> \<not> isMember g (userId (sock_user s)) \<longrightarrow>
        (\<exists>e. handleGetActiveUsers s (Some dat) w =
          (\<lparr>success = False, message = Some ''You are not a member of this group'',
            error = e, data = None\<rparr>, w)))"
proof (intro conjI impI)
  assume m: "findById w gid = Doc g \<and> isMember g (userId (sock_user s))"
  show "\<exists>conns. handleGetActiveUsers s (Some dat) w =
         (\<lparr>success = True, message = None, error = None,
           data = Some (UsersData (map (\<lambda>i. \<lparr>au_userId = userId (the (sockets w i)),
                                              au_email = email (the (sockets w i)),
                                              au_status = ''online''\<rparr>) conns))\<rparr>, w)
        \<and> (\<forall>x. count_list conns x =
              (if x \<in> set (rooms w (group_room gid)) \<and> sockets w x \<noteq> None
               then 1 else 0))"
    using assms m
    by (intro exI [of _ "room_sockets w (group_room gid)"])
       (simp add: handleGetActiveUsers_def getActiveUsers_try_def getGroupById_Doc truthy_def
          fetchSockets_def Let_def count_all comp_def)
next
  assume "findById w gid = NoDoc"
  with assms show "handleGetActiveUsers s (Some dat) w =
          (\<lparr>success = False, message = Some ''Group not found'',
            error = Some ''GROUP_NOT_FOUND'', data = None\<rparr>, w)"
    by (simp add: handleGetActiveUsers_def getActiveUsers_try_def getGroupById_def truthy_def
        NotFoundError_def AppError_def ack_fail_def)
next
  assume "findById w gid = Doc g \<and> \<not> isMember g (userId (sock_user s))"
  with assms show "\<exists>e. handleGetActiveUsers s (Some dat) w =
          (\<lparr>success = False, message = Some ''You are not a member of this group'',
            error = e, data = None\<rparr>, w)"
    by (simp add: handleGetActiveUsers_def getActiveUsers_try_def getGroupById_Doc truthy_def
        AuthorizationError_def AppError_def ack_fail_def)
qed

theorem active_users_per_connection_witness:
  "groupId on_g1 = Some ''g1''
   \<and> (findById lobby ''g1'' = Doc team \<and> isMember team (userId (sock_user sock_alice)))
   \<and> (\<exists>conns. handleGetActiveUsers sock_alice (Some on_g1) lobby =
         (\<lparr>success = True, message = None, error = None,
           data = Some (UsersData (map (\<lambda>i. \<lparr>au_userId = userId (the (sockets lobby i)),
                                              au_email = email (the (sockets lobby i)),
                                              au_status = ''online''\<rparr>) conns))\<rparr>, lobby)
        \<and> (\<forall>x. count_list conns x =
              (if x \<in> set (rooms lobby (group_room ''g1'')) \<and> sockets lobby x \<noteq> None
               then 1 else 0)))
   \<and> (findById lobby ''g1'' = Doc team \<and> \<not> isMember team (userId (sock_user sock_carol)))
   \<and> (\<exists>e. handleGetActiveUsers sock_carol (Some on_g1) lobby =
          (\<lparr>success = False, message = Some ''You are not a member of this group'',
            error = e, data = None\<rparr>, lobby))
   \<and> groupId on_nowhere = Some ''g9'' \<and> findById lobby ''g9'' = NoDoc
   \<and> handleGetActiveUsers sock_alice (Some on_nowhere) lobby =
          (\<lparr>success = False, message = Some ''Group not found'',
            error = Some ''GROUP_NOT_FOUND'', data = None\<rparr>, lobby)"
proof -
  have g1: "groupId on_g1 = Some ''g1''" by (simp add: on_g1_def)
  have g9: "groupId on_nowhere = Some ''g9''" by (simp add: on_nowhere_def)
  have ne1: "''g1'' \<noteq> []" and ne9: "''g9'' \<noteq> []" by simp_all
  have h1: "findById lobby ''g1'' = Doc team \<and> isMember team (userId (sock_user sock_alice))"
    by (simp add: isMember_def demo_defs)
  have h2: "findById lobby ''g1'' = Doc team
            \<and> \<not> isMember team (userId (sock_user sock_carol))"
    by (simp add: isMember_def demo_defs)
  have h3: "findById lobby ''g9'' = NoDoc" by (simp add: lobby_def)
  from active_users_per_connection [OF g1 ne1, of lobby team sock_alice] h1
  have r1: "\<exists>conns. handleGetActiveUsers sock_alice (Some on_g1) lobby =
         (\<lparr>success = True, message = None, error = None,
           data = Some (UsersData (map (\<lambda>i. \<lparr>au_userId = userId (the (sockets lobby i)),
                                              au_email = email (the (sockets lobby i)),
                                              au_status = ''online''\<rparr>) conns))\<rparr>, lobby)
        \<and> (\<forall>x. count_list conns x =
              (if x \<in> set (rooms lobby (group_room ''g1'')) \<and> sockets lobby x \<noteq> None
               then 1 else 0))"
    by blast
  from active_users_per_connection [OF g1 ne1, of lobby team sock_carol] h2
  have r2: "\<exists>e. handleGetActiveUsers sock_carol (Some on_g1) lobby =
          (\<lparr>success = False, message = Some ''You are not a member of this group'',
            error = e, data = None\<rparr>, lobby)"
    by blast
  from active_users_per_connection [OF g9 ne9, of lobby team sock_alice] h3
  have r3: "handleGetActiveUsers sock_alice (Some on_nowhere) lobby =
          (\<lparr>success = False, message = Some ''Group not found'',
            error = Some ''GROUP_NOT_FOUND'', data = None\<rparr>, lobby)"
    by blast
  from g1 g9 h1 h2 h3 r1 r2 r3 show ?thesis by blast
qed

text \<open>
  The claim as first stated fails: bob has two connections in the room of \<open>g1\<close>, and the
  list alice receives names him twice, so its entries are not distinct identities.
\<close>

theorem active_users_duplicates_counterexample:
  "data (fst (handleGetActiveUsers sock_alice (Some on_g1) lobby)) =
     Some (UsersData
       [\<lparr>au_userId = ''u2'', au_email = ''bob@example.com'', au_status = ''online''\<rparr>,
        \<lparr>au_userId = ''u2'', au_email = ''bob@example.com'', au_status = ''online''\<rparr>,
        \<lparr>au_userId = ''u4'', au_email = ''dave@example.com'', au_status = ''online''\<rparr>])
   \<and> \<not> distinct
       [\<lparr>au_userId = ''u2'', au_email = ''bob@example.com'', au_status = ''online''\<rparr>,
        \<lparr>au_userId = ''u2'', au_email = ''bob@example.com'', au_status = ''online''\<rparr>,
        \<lparr>au_userId = ''u4'', au_email = ''dave@example.com'', au_status = ''online''\<rparr>]"
  by (simp add: handleGetActiveUsers_def getActiveUsers_try_def getGroupById_def
      isMember_def truthy_def fetchSockets_def room_sockets_def group_room_def Let_def
      demo_defs)

end
